theory Spec2Isabelle
  imports Complex_Main "HOL-Library.Word"
begin

unbundle bit_operations_syntax

section \<open>Environment lighting (graphics/env-lighting.js)\<close>

text \<open>
  A shallow embedding of \<^verbatim>\<open>src/graphics/env-lighting.js\<close>: the two pixel-format
  selectors, \<^verbatim>\<open>createCubemap\<close>, \<^verbatim>\<open>generateMipmaps\<close> and the four static operations of
  \<^verbatim>\<open>EnvLighting\<close>.

  JavaScript numbers are modelled as rationals where the file divides or floors them
  (texture sizes, the components of the rectangle), so that \<^verbatim>\<open>source.width / 4\<close> is the
  exact quotient and \<^verbatim>\<open>Math.floor(rect.z * 0.5)\<close> is a floor; on the integer-valued sizes the
  file works with, the double-precision results are exactly these. Sample counts and
  specular powers are integers. The operand of \<^verbatim>\<open>>>\<close> is a 32-bit word, as in JavaScript.
  A field that is tested for truth (\<^verbatim>\<open>device.extTextureHalfFloat\<close>, \<^verbatim>\<open>source.mipmaps\<close>,
  \<^verbatim>\<open>options.legacyAmbient\<close>) is the boolean of its truthiness.
\<close>

subsection \<open>Constants imported from graphics/constants\<close>

text \<open>
  Modelled from the spec: \<^verbatim>\<open>constants.js\<close> is not part of the sources at hand. The spec speaks
  of a format enumeration with an 8-bit-per-channel, a 16-bit float and a 32-bit float
  format, of a standard and a range-compressed encoding type, of a clamp-to-edge
  addressing mode and of an equirectangular projection. Each imported constant is a
  constructor of its own; the last constructor of each type stands for the values of
  that enumeration which this file does not name.
\<close>

datatype pixelformat =
    PIXELFORMAT_R8_G8_B8_A8
  | PIXELFORMAT_RGBA16F
  | PIXELFORMAT_RGBA32F
  | PIXELFORMAT_OTHER nat

datatype texturetype =
    TEXTURETYPE_DEFAULT
  | TEXTURETYPE_RGBM
  | TEXTURETYPE_OTHER nat

datatype textureprojection =
    TEXTUREPROJECTION_EQUIRECT
  | TEXTUREPROJECTION_OTHER nat

datatype address =
    ADDRESS_CLAMP_TO_EDGE
  | ADDRESS_OTHER nat

subsection \<open>Devices, textures and the recorded GPU state\<close>

record device =
  extTextureHalfFloat :: bool
  textureHalfFloatRenderable :: bool
  extTextureFloat :: bool
  textureFloatRenderable :: bool

text \<open>
  A texture name is kept as the expression that builds it: a literal, the template
  \<^verbatim>\<open>`lighting-${size}`\<close>, or \<^verbatim>\<open>name + suffix\<close> (where the name may be undefined).
\<close>

datatype texname =
    Literal string
  | Lighting rat
  | Plus "texname option" string

text \<open>
  Modelled from the spec: the \<^verbatim>\<open>Texture\<close> class (\<^verbatim>\<open>texture.js\<close>) is not part of the sources
  at hand. The spec gives it as constructible from a configuration and as exposing the
  configured attributes and its device. An attribute that a constructor call of this
  file leaves out (\<^verbatim>\<open>name\<close>, \<^verbatim>\<open>cubemap\<close>, \<^verbatim>\<open>projection\<close>, \<^verbatim>\<open>fixCubemapSeams\<close>) is \<open>None\<close>.
\<close>

record texture =
  device :: device
  name :: "texname option"
  cubemap :: "bool option"
  width :: rat
  height :: rat
  format :: pixelformat
  type :: texturetype
  projection :: "textureprojection option"
  addressU :: address
  addressV :: address
  fixCubemapSeams :: "bool option"
  mipmaps :: bool

datatype vec4 = Vec4 rat rat rat rat

text \<open>The options bag of \<^verbatim>\<open>reprojectTexture\<close>; \<^verbatim>\<open>numSamples\<close> is given at every call.\<close>

record reproject_options =
  numSamples :: int
  distribution :: "string option"
  specularPower :: "int option"
  rect :: "vec4 option"
  seamPixels :: "int option"

type_synonym handle = nat

record reproject_call =
  call_source :: "handle option"
  call_target :: handle
  call_options :: reproject_options

text \<open>
  Textures are objects: a texture reference is a handle, an index into the list of the
  textures created so far. The state also records the handles destroyed, the calls made
  to the convolution primitive, in order, and the stack of open GPU markers.
\<close>

record gpu =
  textures :: "texture list"
  destroyed :: "handle set"
  calls :: "reproject_call list"
  markers :: "string list"

datatype error = TypeError

text \<open>Reading a property of a reference that is not an object throws.\<close>

definition deref :: "gpu \<Rightarrow> handle \<Rightarrow> error + texture" where
  "deref s h = (if h < length (textures s) then Inr (textures s ! h) else Inl TypeError)"

text \<open>Modelled from the spec: \<^verbatim>\<open>new Texture(device, config)\<close> allocates a texture.\<close>

definition new_Texture :: "texture \<Rightarrow> gpu \<Rightarrow> handle \<times> gpu" where
  "new_Texture t s = (length (textures s), s\<lparr>textures := textures s @ [t]\<rparr>)"

text \<open>Modelled from the spec: \<^verbatim>\<open>texture.destroy()\<close> releases the texture.\<close>

definition destroy :: "handle \<Rightarrow> gpu \<Rightarrow> gpu" where
  "destroy h s = s\<lparr>destroyed := insert h (destroyed s)\<rparr>"

text \<open>
  Modelled from the spec: \<^verbatim>\<open>reprojectTexture\<close> (\<^verbatim>\<open>reproject-texture.js\<close>) is the external
  convolution primitive, total, reading its options when called. The model records
  the call with the value the options have at that moment.
\<close>

definition reprojectTexture :: "handle option \<Rightarrow> handle \<Rightarrow> reproject_options \<Rightarrow> gpu \<Rightarrow> gpu" where
  "reprojectTexture source target options s =
     s\<lparr>calls := calls s @
        [\<lparr>call_source = source, call_target = target, call_options = options\<rparr>]\<rparr>"

text \<open>
  Modelled from the spec: \<^verbatim>\<open>Debug.pushGpuMarker\<close> and \<^verbatim>\<open>Debug.popGpuMarker\<close> (\<^verbatim>\<open>debug.js\<close>)
  open and close a trace span and have no other effect.
\<close>

definition pushGpuMarker :: "string \<Rightarrow> gpu \<Rightarrow> gpu" where
  "pushGpuMarker m s = s\<lparr>markers := m # markers s\<rparr>"

definition popGpuMarker :: "gpu \<Rightarrow> gpu" where
  "popGpuMarker s = s\<lparr>markers := tl (markers s)\<rparr>"

subsection \<open>Format selection and cubemap creation\<close>

definition fixCubemapSeams_const :: bool where
  "fixCubemapSeams_const = True"

definition supportsFloat16 :: "device \<Rightarrow> bool" where
  "supportsFloat16 d = (extTextureHalfFloat d \<and> textureHalfFloatRenderable d)"

definition supportsFloat32 :: "device \<Rightarrow> bool" where
  "supportsFloat32 d = (extTextureFloat d \<and> textureFloatRenderable d)"

definition lightingSourcePixelFormat :: "device \<Rightarrow> pixelformat" where
  "lightingSourcePixelFormat d =
     (if supportsFloat16 d then PIXELFORMAT_RGBA16F
      else if supportsFloat32 d then PIXELFORMAT_RGBA32F
      else PIXELFORMAT_R8_G8_B8_A8)"

definition lightingPixelFormat :: "device \<Rightarrow> pixelformat" where
  "lightingPixelFormat d = PIXELFORMAT_R8_G8_B8_A8"

definition createCubemap :: "device \<Rightarrow> rat \<Rightarrow> pixelformat \<Rightarrow> bool \<Rightarrow> gpu \<Rightarrow> handle \<times> gpu" where
  "createCubemap d sz fmt mips s =
     new_Texture
       \<lparr>device = d,
        name = Some (Lighting sz),
        cubemap = Some True,
        width = sz,
        height = sz,
        format = fmt,
        type = (if fmt = PIXELFORMAT_R8_G8_B8_A8 then TEXTURETYPE_RGBM else TEXTURETYPE_DEFAULT),
        projection = None,
        addressU = ADDRESS_CLAMP_TO_EDGE,
        addressV = ADDRESS_CLAMP_TO_EDGE,
        fixCubemapSeams = Some fixCubemapSeams_const,
        mipmaps = mips\<rparr> s"

subsection \<open>generateMipmaps\<close>

definition generateMipmaps :: "handle \<Rightarrow> gpu \<Rightarrow> error + (handle \<times> gpu)" where
  "generateMipmaps target s =
     (case deref s target of
        Inl e \<Rightarrow> Inl e
      | Inr t \<Rightarrow>
          let d = device t;
              s1 = pushGpuMarker ''genMipmaps'' s;
              (result, s2) =
                new_Texture
                  \<lparr>device = d,
                   name = Some (Plus (name t) ''-mipmaps''),
                   cubemap = cubemap t,
                   width = width t,
                   height = height t,
                   format = format t,
                   type = type t,
                   projection = None,
                   addressU = addressU t,
                   addressV = addressV t,
                   fixCubemapSeams = fixCubemapSeams t,
                   mipmaps = True\<rparr> s1;
              s3 = reprojectTexture (Some target) result
                     \<lparr>numSamples = 1, distribution = None, specularPower = None,
                      rect = None, seamPixels = None\<rparr> s2;
              s4 = destroy target s3;
              s5 = popGpuMarker s4
          in Inr (result, s5))"

subsection \<open>The options of the atlas generators\<close>

text \<open>
  The caller's options object, itself optional: \<^verbatim>\<open>target\<close>, \<^verbatim>\<open>numSamples\<close>,
  \<^verbatim>\<open>distribution\<close> and \<^verbatim>\<open>legacyAmbient\<close>. A field that is left out is \<open>None\<close>
  (\<open>False\<close> for the flag).
\<close>

record options =
  opt_target :: "handle option"
  opt_numSamples :: "int option"
  opt_distribution :: "string option"
  opt_legacyAmbient :: bool

text \<open>\<^verbatim>\<open>options?.field\<close>: undefined when the options are.\<close>

definition chain :: "('a \<Rightarrow> 'b option) \<Rightarrow> 'a option \<Rightarrow> 'b option" where
  "chain f opts = (case opts of None \<Rightarrow> None | Some v \<Rightarrow> f v)"

definition chain_flag :: "('a \<Rightarrow> bool) \<Rightarrow> 'a option \<Rightarrow> bool" where
  "chain_flag f opts = (case opts of None \<Rightarrow> False | Some v \<Rightarrow> f v)"

text \<open>\<^verbatim>\<open>a || b\<close> on an optional number: undefined and 0 are falsy.\<close>

definition or_number :: "int option \<Rightarrow> int \<Rightarrow> int" where
  "or_number a b = (case a of None \<Rightarrow> b | Some n \<Rightarrow> if n = 0 then b else n)"

text \<open>\<^verbatim>\<open>a || b\<close> on an optional size (a rational number).\<close>

definition or_size :: "rat option \<Rightarrow> rat \<Rightarrow> rat" where
  "or_size a b = (case a of None \<Rightarrow> b | Some n \<Rightarrow> if n = 0 then b else n)"

text \<open>\<^verbatim>\<open>a || b\<close> on an optional string: undefined and the empty string are falsy.\<close>

definition or_string :: "string option \<Rightarrow> string \<Rightarrow> string" where
  "or_string a b = (case a of None \<Rightarrow> b | Some v \<Rightarrow> if v = [] then b else v)"

text \<open>\<^verbatim>\<open>2048 >> k\<close>: a signed shift of a 32-bit integer by the low five bits of \<open>k\<close>.\<close>

definition shift_right_2048 :: "nat \<Rightarrow> int" where
  "shift_right_2048 k = sint (signed_drop_bit (k mod 32) (2048 :: 32 word))"

subsection \<open>generateSkyboxCubemap and generateLightingSource\<close>

definition generateSkyboxCubemap :: "handle \<Rightarrow> rat option \<Rightarrow> gpu \<Rightarrow> error + (handle \<times> gpu)" where
  "generateSkyboxCubemap source sz s =
     (case deref s source of
        Inl e \<Rightarrow> Inl e
      | Inr src \<Rightarrow>
          let d = device src;
              s1 = pushGpuMarker ''genSkyboxCubemap'' s;
              (result, s2) =
                createCubemap d
                  (or_size sz (if cubemap src = Some True then width src else width src / 4))
                  PIXELFORMAT_R8_G8_B8_A8 False s1;
              s3 = reprojectTexture (Some source) result
                     \<lparr>numSamples = 1024, distribution = None, specularPower = None,
                      rect = None, seamPixels = None\<rparr> s2;
              s4 = popGpuMarker s3
          in Inr (result, s4))"

definition generateLightingSource :: "handle \<Rightarrow> gpu \<Rightarrow> error + (handle \<times> gpu)" where
  "generateLightingSource source s =
     (case deref s source of
        Inl e \<Rightarrow> Inl e
      | Inr src \<Rightarrow>
          let d = device src;
              s1 = pushGpuMarker ''genLightingSource'' s;
              (result, s2) = createCubemap d 128 (lightingSourcePixelFormat d) False s1;
              s3 = reprojectTexture (Some source) result
                     \<lparr>numSamples = (if mipmaps src then 1 else 1024), distribution = None,
                      specularPower = None, rect = None, seamPixels = None\<rparr> s2;
              s4 = popGpuMarker s3
          in generateMipmaps result s4)"

subsection \<open>generateAtlas\<close>

text \<open>The texture that both atlas generators create when the caller gives no target.\<close>

definition atlas_texture :: "device \<Rightarrow> pixelformat \<Rightarrow> texture" where
  "atlas_texture d fmt =
     \<lparr>device = d,
      name = None,
      cubemap = None,
      width = 512,
      height = 512,
      format = fmt,
      type = (if fmt = PIXELFORMAT_R8_G8_B8_A8 then TEXTURETYPE_RGBM else TEXTURETYPE_DEFAULT),
      projection = Some TEXTUREPROJECTION_EQUIRECT,
      addressU = ADDRESS_CLAMP_TO_EDGE,
      addressV = ADDRESS_CLAMP_TO_EDGE,
      fixCubemapSeams = None,
      mipmaps = False\<rparr>"

text \<open>
  The loop \<^verbatim>\<open>for (let i = 1; i < 7; ++i)\<close>. The rectangle is one object, changed in
  place in every round: \<^verbatim>\<open>y\<close> grows by the old \<^verbatim>\<open>w\<close>, then \<^verbatim>\<open>z\<close> and \<^verbatim>\<open>w\<close> are halved.
  The function returns the rectangle as the loop leaves it.
\<close>

function generateAtlas_loop ::
  "handle \<Rightarrow> handle \<Rightarrow> options option \<Rightarrow> nat \<Rightarrow> vec4 \<Rightarrow> gpu \<Rightarrow> vec4 \<times> gpu" where
  "generateAtlas_loop source result options i (Vec4 x y z w) s =
     (if i < 7 then
        let y' = y + w;
            z' = max 1 (of_int \<lfloor>z * 0.5\<rfloor>);
            w' = max 1 (of_int \<lfloor>w * 0.5\<rfloor>);
            s' = reprojectTexture (Some source) result
                   \<lparr>numSamples = or_number (chain opt_numSamples options) 1024,
                    distribution = Some (or_string (chain opt_distribution options) ''ggx''),
                    specularPower = Some (max 1 (shift_right_2048 (i * 2))),
                    rect = Some (Vec4 x y' z' w'),
                    seamPixels = Some 1\<rparr> s
        in generateAtlas_loop source result options (i + 1) (Vec4 x y' z' w') s'
      else (Vec4 x y z w, s))"
  by pat_completeness auto
termination
  by (relation "measure (\<lambda>(source, result, options, i, r, s). 7 - i)") auto

declare generateAtlas_loop.simps [simp del]

definition generateAtlas :: "handle \<Rightarrow> options option \<Rightarrow> gpu \<Rightarrow> error + (handle \<times> gpu)" where
  "generateAtlas source options s =
     (case deref s source of
        Inl e \<Rightarrow> Inl e
      | Inr src \<Rightarrow>
          let d = device src;
              fmt = lightingPixelFormat d;
              s1 = pushGpuMarker ''genAtlas'' s;
              (result, s2) =
                (case chain opt_target options of
                   Some t \<Rightarrow> (t, s1)
                 | None \<Rightarrow> new_Texture (atlas_texture d fmt) s1);
              rect0 = Vec4 0 0 512 256;
              s3 = pushGpuMarker ''reflection'' s2;
              s4 = reprojectTexture (Some source) result
                     \<lparr>numSamples = 1, distribution = None, specularPower = None,
                      rect = Some rect0, seamPixels = Some 1\<rparr> s3;
              (rect1, s5) = generateAtlas_loop source result options 1 rect0 s4;
              s6 = popGpuMarker s5;
              rect2 = Vec4 256 256 64 32;
              s7 = pushGpuMarker ''ambient'' s6;
              s8 = (if chain_flag opt_legacyAmbient options then
                      reprojectTexture (Some source) result
                        \<lparr>numSamples = or_number (chain opt_numSamples options) 4096,
                         distribution = Some ''phong'',
                         specularPower = Some 2,
                         rect = Some rect2,
                         seamPixels = Some 1\<rparr> s7
                    else
                      reprojectTexture (Some source) result
                        \<lparr>numSamples = or_number (chain opt_numSamples options) 2048,
                         distribution = Some ''lambert'',
                         specularPower = None,
                         rect = Some rect2,
                         seamPixels = Some 1\<rparr> s7);
              s9 = popGpuMarker s8;
              s10 = popGpuMarker s9
          in Inr (result, s10))"

subsection \<open>generatePrefilteredAtlas\<close>

text \<open>\<^verbatim>\<open>sources[i]\<close>: undefined beyond the end of the array.\<close>

definition index :: "'a list \<Rightarrow> nat \<Rightarrow> 'a option" where
  "index xs i = (if i < length xs then Some (xs ! i) else None)"

text \<open>
  The loop \<^verbatim>\<open>for (let i = 0; i < sources.length; ++i)\<close>: it writes first and moves the
  rectangle afterwards.
\<close>

function generatePrefilteredAtlas_loop ::
  "handle list \<Rightarrow> handle \<Rightarrow> nat \<Rightarrow> vec4 \<Rightarrow> gpu \<Rightarrow> vec4 \<times> gpu" where
  "generatePrefilteredAtlas_loop sources result i (Vec4 x y z w) s =
     (if i < length sources then
        let s' = reprojectTexture (index sources i) result
                   \<lparr>numSamples = 1, distribution = None, specularPower = None,
                    rect = Some (Vec4 x y z w), seamPixels = Some 1\<rparr> s;
            y' = y + w;
            z' = max 1 (of_int \<lfloor>z * 0.5\<rfloor>);
            w' = max 1 (of_int \<lfloor>w * 0.5\<rfloor>)
        in generatePrefilteredAtlas_loop sources result (i + 1) (Vec4 x y' z' w') s'
      else (Vec4 x y z w, s))"
  by pat_completeness auto
termination
  by (relation "measure (\<lambda>(sources, result, i, r, s). length sources - i)") auto

declare generatePrefilteredAtlas_loop.simps [simp del]

definition generatePrefilteredAtlas ::
  "handle list \<Rightarrow> options option \<Rightarrow> gpu \<Rightarrow> error + (handle \<times> gpu)" where
  "generatePrefilteredAtlas sources options s =
     (case index sources 0 of
        None \<Rightarrow> Inl TypeError
      | Some source0 \<Rightarrow>
     (case deref s source0 of
        Inl e \<Rightarrow> Inl e
      | Inr src \<Rightarrow>
          let d = device src;
              fmt = lightingPixelFormat d;
              s1 = pushGpuMarker ''genPrefilteredAtlas'' s;
              (result, s2) =
                (case chain opt_target options of
                   Some t \<Rightarrow> (t, s1)
                 | None \<Rightarrow> new_Texture (atlas_texture d fmt) s1);
              rect0 = Vec4 0 0 512 256;
              s3 = pushGpuMarker ''reflection'' s2;
              (rect1, s4) = generatePrefilteredAtlas_loop sources result 0 rect0 s3;
              s5 = popGpuMarker s4;
              rect2 = Vec4 256 256 64 32;
              s6 = pushGpuMarker ''ambient'' s5;
              s7 = (if chain_flag opt_legacyAmbient options then
                      reprojectTexture (index sources 5) result
                        \<lparr>numSamples = 1, distribution = None, specularPower = None,
                         rect = Some rect2, seamPixels = Some 1\<rparr> s6
                    else
                      reprojectTexture (index sources 0) result
                        \<lparr>numSamples = or_number (chain opt_numSamples options) 2048,
                         distribution = Some ''lambert'',
                         specularPower = None,
                         rect = Some rect2,
                         seamPixels = Some 1\<rparr> s6);
              s8 = popGpuMarker s7;
              s9 = popGpuMarker s8
          in Inr (result, s9)))"

subsection \<open>Observations on a run\<close>

text \<open>
  The calls to the convolution primitive that a run adds to the record, in order;
  \<open>None\<close> when the run throws.
\<close>

definition issued :: "gpu \<Rightarrow> error + (handle \<times> gpu) \<Rightarrow> reproject_call list option" where
  "issued s r =
     (case r of Inl e \<Rightarrow> None | Inr (h, s') \<Rightarrow> Some (drop (length (calls s)) (calls s')))"

text \<open>The rectangles of the calls that a run adds, in order.\<close>

definition regions :: "gpu \<Rightarrow> error + (handle \<times> gpu) \<Rightarrow> vec4 list" where
  "regions s r =
     (case issued s r of
        None \<Rightarrow> []
      | Some cs \<Rightarrow> List.map_filter (\<lambda>c. rect (call_options c)) cs)"

text \<open>The texture that a run returns, as the final state has it.\<close>

definition result_texture :: "error + (handle \<times> gpu) \<Rightarrow> texture option" where
  "result_texture r = (case r of Inl e \<Rightarrow> None | Inr (h, s') \<Rightarrow> index (textures s') h)"

definition result_handle :: "error + (handle \<times> gpu) \<Rightarrow> handle option" where
  "result_handle r = (case r of Inl e \<Rightarrow> None | Inr (h, s') \<Rightarrow> Some h)"

definition result_state :: "error + (handle \<times> gpu) \<Rightarrow> gpu option" where
  "result_state r = (case r of Inl e \<Rightarrow> None | Inr (h, s') \<Rightarrow> Some s')"

text \<open>Width and height of the texture that a run returns.\<close>

definition result_size :: "error + (handle \<times> gpu) \<Rightarrow> (rat \<times> rat) option" where
  "result_size r = map_option (\<lambda>t. (width t, height t)) (result_texture r)"

text \<open>
  The pixels of a rectangle \<open>(x, y, z, w)\<close>: columns \<open>x \<le> px < x + z\<close>, rows
  \<open>y \<le> py < y + w\<close>.
\<close>

fun pixels :: "vec4 \<Rightarrow> (int \<times> int) set" where
  "pixels (Vec4 x y z w) =
     {(px, py). x \<le> of_int px \<and> of_int px < x + z \<and> y \<le> of_int py \<and> of_int py < y + w}"

fun overlap :: "vec4 \<Rightarrow> vec4 \<Rightarrow> bool" where
  "overlap (Vec4 x y z w) (Vec4 x' y' z' w') =
     (x < x' + z' \<and> x' < x + z \<and> y < y' + w' \<and> y' < y + w)"

fun inside_atlas :: "vec4 \<Rightarrow> bool" where
  "inside_atlas (Vec4 x y z w) = (0 \<le> x \<and> x + z \<le> 512 \<and> 0 \<le> y \<and> y + w \<le> 512)"

text \<open>
  The layout rule in the words of the specification, on a rectangle \<open>(x, y, w, h)\<close>:
  \<open>y_new = y_prev + h_prev\<close>, \<open>w_new = max(1, floor(w_prev * 0.5))\<close>,
  \<open>h_new = max(1, floor(h_prev * 0.5))\<close>, and \<open>x\<close> stays.
\<close>

fun spec_advance :: "vec4 \<Rightarrow> vec4" where
  "spec_advance (Vec4 x y w h) =
     Vec4 x (y + h) (max 1 (of_int \<lfloor>w * 0.5\<rfloor>)) (max 1 (of_int \<lfloor>h * 0.5\<rfloor>))"

primrec spec_levels :: "nat \<Rightarrow> vec4 \<Rightarrow> vec4 list" where
  "spec_levels 0 r = []"
| "spec_levels (Suc n) r = r # spec_levels n (spec_advance r)"

text \<open>The three shapes of call that the atlas generators make.\<close>

definition copy_call :: "handle option \<Rightarrow> handle \<Rightarrow> vec4 \<Rightarrow> reproject_call" where
  "copy_call source result r =
     \<lparr>call_source = source, call_target = result,
      call_options =
        \<lparr>numSamples = 1, distribution = None, specularPower = None,
         rect = Some r, seamPixels = Some 1\<rparr>\<rparr>"

definition reflection_call ::
  "handle \<Rightarrow> handle \<Rightarrow> options option \<Rightarrow> int \<Rightarrow> vec4 \<Rightarrow> reproject_call" where
  "reflection_call source result options p r =
     \<lparr>call_source = Some source, call_target = result,
      call_options =
        \<lparr>numSamples = or_number (chain opt_numSamples options) 1024,
         distribution = Some (or_string (chain opt_distribution options) ''ggx''),
         specularPower = Some p, rect = Some r, seamPixels = Some 1\<rparr>\<rparr>"

definition ambient_options :: "options option \<Rightarrow> reproject_options" where
  "ambient_options options =
     (if chain_flag opt_legacyAmbient options then
        \<lparr>numSamples = or_number (chain opt_numSamples options) 4096,
         distribution = Some ''phong'', specularPower = Some 2,
         rect = Some (Vec4 256 256 64 32), seamPixels = Some 1\<rparr>
      else
        \<lparr>numSamples = or_number (chain opt_numSamples options) 2048,
         distribution = Some ''lambert'', specularPower = None,
         rect = Some (Vec4 256 256 64 32), seamPixels = Some 1\<rparr>)"

definition atlas_calls :: "handle \<Rightarrow> handle \<Rightarrow> options option \<Rightarrow> reproject_call list" where
  "atlas_calls source result options =
     [copy_call (Some source) result (Vec4 0 0 512 256),
      reflection_call source result options 512 (Vec4 0 256 256 128),
      reflection_call source result options 128 (Vec4 0 384 128 64),
      reflection_call source result options 32 (Vec4 0 448 64 32),
      reflection_call source result options 8 (Vec4 0 480 32 16),
      reflection_call source result options 2 (Vec4 0 496 16 8),
      reflection_call source result options 1 (Vec4 0 504 8 4),
      \<lparr>call_source = Some source, call_target = result,
       call_options = ambient_options options\<rparr>]"

text \<open>The cubemap that \<^verbatim>\<open>generateLightingSource\<close> creates on a device.\<close>

definition lighting_cube :: "device \<Rightarrow> texture" where
  "lighting_cube d =
     \<lparr>device = d,
      name = Some (Lighting 128),
      cubemap = Some True,
      width = 128,
      height = 128,
      format = lightingSourcePixelFormat d,
      type = (if lightingSourcePixelFormat d = PIXELFORMAT_R8_G8_B8_A8
              then TEXTURETYPE_RGBM else TEXTURETYPE_DEFAULT),
      projection = None,
      addressU = ADDRESS_CLAMP_TO_EDGE,
      addressV = ADDRESS_CLAMP_TO_EDGE,
      fixCubemapSeams = Some True,
      mipmaps = False\<rparr>"

text \<open>The ambient call of \<^verbatim>\<open>generatePrefilteredAtlas\<close>.\<close>

definition prefiltered_ambient_call ::
  "handle option \<Rightarrow> handle option \<Rightarrow> handle \<Rightarrow> options option \<Rightarrow> reproject_call" where
  "prefiltered_ambient_call source0 source5 result options =
     (if chain_flag opt_legacyAmbient options then
        copy_call source5 result (Vec4 256 256 64 32)
      else
        \<lparr>call_source = source0, call_target = result,
         call_options =
           \<lparr>numSamples = or_number (chain opt_numSamples options) 2048,
            distribution = Some ''lambert'', specularPower = None,
            rect = Some (Vec4 256 256 64 32), seamPixels = Some 1\<rparr>\<rparr>)"

text \<open>The options of the \<open>k\<close>-th call that a run adds.\<close>

definition issued_options ::
  "nat \<Rightarrow> gpu \<Rightarrow> error + (handle \<times> gpu) \<Rightarrow> reproject_options option" where
  "issued_options k s r =
     (case issued s r of None \<Rightarrow> None | Some cs \<Rightarrow> map_option call_options (index cs k))"

subsection \<open>A concrete scene\<close>

text \<open>
  A device with full-float textures only; a 1024x512 equirectangular capture, a
  256x256 texture that a caller may hand in as target, and six 128-wide cubemaps.
\<close>

definition ex_device :: device where
  "ex_device =
     \<lparr>extTextureHalfFloat = False, textureHalfFloatRenderable = False,
      extTextureFloat = True, textureFloatRenderable = True\<rparr>"

definition ex_equirect :: texture where
  "ex_equirect =
     \<lparr>device = ex_device, name = Some (Literal ''sky''), cubemap = Some False,
      width = 1024, height = 512, format = PIXELFORMAT_RGBA32F, type = TEXTURETYPE_DEFAULT,
      projection = Some TEXTUREPROJECTION_EQUIRECT,
      addressU = ADDRESS_CLAMP_TO_EDGE, addressV = ADDRESS_CLAMP_TO_EDGE,
      fixCubemapSeams = Some False, mipmaps = False\<rparr>"

definition ex_small :: texture where
  "ex_small =
     \<lparr>device = ex_device, name = Some (Literal ''small''), cubemap = Some False,
      width = 256, height = 256, format = PIXELFORMAT_R8_G8_B8_A8, type = TEXTURETYPE_RGBM,
      projection = Some TEXTUREPROJECTION_EQUIRECT,
      addressU = ADDRESS_CLAMP_TO_EDGE, addressV = ADDRESS_CLAMP_TO_EDGE,
      fixCubemapSeams = Some False, mipmaps = False\<rparr>"

definition ex_cube :: texture where
  "ex_cube =
     \<lparr>device = ex_device, name = Some (Literal ''cube''), cubemap = Some True,
      width = 128, height = 128, format = PIXELFORMAT_R8_G8_B8_A8, type = TEXTURETYPE_RGBM,
      projection = None,
      addressU = ADDRESS_CLAMP_TO_EDGE, addressV = ADDRESS_CLAMP_TO_EDGE,
      fixCubemapSeams = Some True, mipmaps = False\<rparr>"

definition ex_gpu :: gpu where
  "ex_gpu =
     \<lparr>textures = [ex_equirect, ex_small, ex_cube, ex_cube, ex_cube, ex_cube, ex_cube, ex_cube],
      destroyed = {}, calls = [], markers = []\<rparr>"

definition ex_options :: options where
  "ex_options =
     \<lparr>opt_target = Some 1, opt_numSamples = None, opt_distribution = None,
      opt_legacyAmbient = True\<rparr>"

text \<open>
  A device with both half-float and full-float textures, supported and renderable, and
  a mipmapped cubemap on it.
\<close>

definition ex_device_both :: device where
  "ex_device_both =
     \<lparr>extTextureHalfFloat = True, textureHalfFloatRenderable = True,
      extTextureFloat = True, textureFloatRenderable = True\<rparr>"

definition ex_mipmapped :: texture where
  "ex_mipmapped =
     \<lparr>device = ex_device_both, name = Some (Literal ''env''), cubemap = Some True,
      width = 256, height = 256, format = PIXELFORMAT_RGBA16F, type = TEXTURETYPE_DEFAULT,
      projection = None,
      addressU = ADDRESS_CLAMP_TO_EDGE, addressV = ADDRESS_CLAMP_TO_EDGE,
      fixCubemapSeams = Some True, mipmaps = True\<rparr>"

definition ex_gpu_both :: gpu where
  "ex_gpu_both = \<lparr>textures = [ex_mipmapped], destroyed = {}, calls = [], markers = []\<rparr>"

text \<open>Options with a sample count of 0, of 64 (legacy ambient) and of 16 (default ambient).\<close>

definition ex_zero_options :: options where
  "ex_zero_options =
     \<lparr>opt_target = None, opt_numSamples = Some 0, opt_distribution = None,
      opt_legacyAmbient = True\<rparr>"

definition ex_override_options :: options where
  "ex_override_options =
     \<lparr>opt_target = None, opt_numSamples = Some 64, opt_distribution = None,
      opt_legacyAmbient = True\<rparr>"

definition ex_lambert_options :: options where
  "ex_lambert_options =
     \<lparr>opt_target = None, opt_numSamples = Some 16, opt_distribution = None,
      opt_legacyAmbient = False\<rparr>"

section \<open>Properties\<close>

subsection \<open>Auxiliary facts\<close>

lemma shift_right_2048_values:
  "shift_right_2048 2 = 512" "shift_right_2048 4 = 128" "shift_right_2048 6 = 32"
  "shift_right_2048 8 = 8" "shift_right_2048 10 = 2" "shift_right_2048 12 = 0"
  by (simp_all add: shift_right_2048_def)

lemma generateAtlas_loop_step:
  "i < 7 \<Longrightarrow>
   generateAtlas_loop source result options i (Vec4 x y z w) s =
   generateAtlas_loop source result options (i + 1)
     (Vec4 x (y + w) (max 1 (of_int \<lfloor>z * 0.5\<rfloor>)) (max 1 (of_int \<lfloor>w * 0.5\<rfloor>)))
     (s\<lparr>calls := calls s @
        [reflection_call source result options (max 1 (shift_right_2048 (i * 2)))
           (Vec4 x (y + w) (max 1 (of_int \<lfloor>z * 0.5\<rfloor>)) (max 1 (of_int \<lfloor>w * 0.5\<rfloor>)))]\<rparr>)"
  by (subst generateAtlas_loop.simps) (simp add: Let_def reprojectTexture_def reflection_call_def)

lemma generateAtlas_loop_exit:
  "\<not> i < 7 \<Longrightarrow>
   generateAtlas_loop source result options i (Vec4 x y z w) s = (Vec4 x y z w, s)"
  by (subst generateAtlas_loop.simps) simp

lemma generateAtlas_loop_run:
  "generateAtlas_loop source result options (Suc 0) (Vec4 0 0 512 256) s =
   (Vec4 0 504 8 4,
    s\<lparr>calls := calls s @
       [reflection_call source result options 512 (Vec4 0 256 256 128),
        reflection_call source result options 128 (Vec4 0 384 128 64),
        reflection_call source result options 32 (Vec4 0 448 64 32),
        reflection_call source result options 8 (Vec4 0 480 32 16),
        reflection_call source result options 2 (Vec4 0 496 16 8),
        reflection_call source result options 1 (Vec4 0 504 8 4)]\<rparr>)"
proof -
  have "generateAtlas_loop source result options 1 (Vec4 0 0 512 256) s =
   (Vec4 0 504 8 4,
    s\<lparr>calls := calls s @
       [reflection_call source result options 512 (Vec4 0 256 256 128),
        reflection_call source result options 128 (Vec4 0 384 128 64),
        reflection_call source result options 32 (Vec4 0 448 64 32),
        reflection_call source result options 8 (Vec4 0 480 32 16),
        reflection_call source result options 2 (Vec4 0 496 16 8),
        reflection_call source result options 1 (Vec4 0 504 8 4)]\<rparr>)"
    by (simp add: generateAtlas_loop_step generateAtlas_loop_exit shift_right_2048_values)
  then show ?thesis by simp
qed

lemma generateAtlas_target:
  assumes "source < length (textures s)" and "chain opt_target options = Some t"
  shows "generateAtlas source options s =
         Inr (t, s\<lparr>calls := calls s @ atlas_calls source t options\<rparr>)"
  using assms
  by (simp add: generateAtlas_def deref_def Let_def generateAtlas_loop_run pushGpuMarker_def
      popGpuMarker_def reprojectTexture_def atlas_calls_def copy_call_def ambient_options_def)

lemma generateAtlas_fresh:
  assumes "source < length (textures s)" and "chain opt_target options = None"
  shows "generateAtlas source options s =
         Inr (length (textures s),
              s\<lparr>textures := textures s @
                   [atlas_texture (device (textures s ! source)) PIXELFORMAT_R8_G8_B8_A8],
                calls := calls s @ atlas_calls source (length (textures s)) options\<rparr>)"
  using assms
  by (simp add: generateAtlas_def deref_def Let_def generateAtlas_loop_run pushGpuMarker_def
      popGpuMarker_def reprojectTexture_def atlas_calls_def copy_call_def ambient_options_def
      new_Texture_def lightingPixelFormat_def)

lemma generateAtlas_issued:
  assumes "source < length (textures s)"
  shows "\<exists>result. issued s (generateAtlas source options s) =
           Some (atlas_calls source result options)"
proof (cases "chain opt_target options")
  case None
  with assms show ?thesis by (auto simp: generateAtlas_fresh issued_def)
next
  case (Some t)
  with assms show ?thesis by (auto simp: generateAtlas_target issued_def)
qed

lemma atlas_calls_rects:
  "map (\<lambda>c. rect (call_options c)) (atlas_calls source result options) =
   [Some (Vec4 0 0 512 256), Some (Vec4 0 256 256 128), Some (Vec4 0 384 128 64),
    Some (Vec4 0 448 64 32), Some (Vec4 0 480 32 16), Some (Vec4 0 496 16 8),
    Some (Vec4 0 504 8 4), Some (Vec4 256 256 64 32)]"
  by (simp add: atlas_calls_def copy_call_def reflection_call_def ambient_options_def)

lemma generateAtlas_regions:
  assumes "source < length (textures s)"
  shows "regions s (generateAtlas source options s) =
   [Vec4 0 0 512 256, Vec4 0 256 256 128, Vec4 0 384 128 64, Vec4 0 448 64 32,
    Vec4 0 480 32 16, Vec4 0 496 16 8, Vec4 0 504 8 4, Vec4 256 256 64 32]"
proof -
  obtain result where
    "issued s (generateAtlas source options s) = Some (atlas_calls source result options)"
    using generateAtlas_issued [OF assms] by blast
  then show ?thesis
    by (simp add: regions_def List.map_filter_def atlas_calls_def copy_call_def
        reflection_call_def ambient_options_def)
qed

lemma spec_levels_default:
  "spec_levels 7 (Vec4 0 0 512 256) =
   [Vec4 0 0 512 256, Vec4 0 256 256 128, Vec4 0 384 128 64, Vec4 0 448 64 32,
    Vec4 0 480 32 16, Vec4 0 496 16 8, Vec4 0 504 8 4]"
  by (simp add: numeral_eq_Suc)

lemma no_overlap_disjoint: "\<not> overlap a b \<Longrightarrow> pixels a \<inter> pixels b = {}"
  by (cases a; cases b) (auto simp: not_less)

lemma inside_atlas_pixels: "inside_atlas a \<Longrightarrow> pixels a \<subseteq> {0..<512} \<times> {0..<512}"
proof (cases a)
  case (Vec4 x y z w)
  assume "inside_atlas a"
  with Vec4 have b: "0 \<le> x" "x + z \<le> 512" "0 \<le> y" "y + w \<le> 512" by simp_all
  show ?thesis
  proof
    fix p assume "p \<in> pixels a"
    then obtain px py where p: "p = (px, py)" "x \<le> of_int px" "of_int px < x + z"
      "y \<le> of_int py" "of_int py < y + w"
      using Vec4 by auto
    from p b have "(0::rat) \<le> of_int px" "(of_int px :: rat) < 512"
      "(0::rat) \<le> of_int py" "(of_int py :: rat) < 512" by linarith+
    then have "0 \<le> px" "px < 512" "0 \<le> py" "py < 512" by simp_all
    with p show "p \<in> {0..<512} \<times> {0..<512}" by simp
  qed
qed

lemma generateMipmaps_run:
  assumes "target < length (textures s)"
  shows "generateMipmaps target s =
         Inr (length (textures s),
              s\<lparr>textures := textures s @
                   [(textures s ! target)
                      \<lparr>name := Some (Plus (name (textures s ! target)) ''-mipmaps''),
                       projection := None, mipmaps := True\<rparr>],
                destroyed := insert target (destroyed s),
                calls := calls s @
                   [\<lparr>call_source = Some target, call_target = length (textures s),
                     call_options =
                       \<lparr>numSamples = 1, distribution = None, specularPower = None,
                        rect = None, seamPixels = None\<rparr>\<rparr>]\<rparr>)"
  using assms
  by (simp add: generateMipmaps_def deref_def Let_def new_Texture_def pushGpuMarker_def
      popGpuMarker_def reprojectTexture_def destroy_def)

lemma generateSkyboxCubemap_run:
  assumes "source < length (textures s)"
  shows "generateSkyboxCubemap source sz s =
         Inr (length (textures s),
              s\<lparr>textures := textures s @
                   [\<lparr>device = device (textures s ! source),
                     name = Some (Lighting
                       (or_size sz (if cubemap (textures s ! source) = Some True
                                    then width (textures s ! source)
                                    else width (textures s ! source) / 4))),
                     cubemap = Some True,
                     width = or_size sz (if cubemap (textures s ! source) = Some True
                                    then width (textures s ! source)
                                    else width (textures s ! source) / 4),
                     height = or_size sz (if cubemap (textures s ! source) = Some True
                                    then width (textures s ! source)
                                    else width (textures s ! source) / 4),
                     format = PIXELFORMAT_R8_G8_B8_A8,
                     type = TEXTURETYPE_RGBM,
                     projection = None,
                     addressU = ADDRESS_CLAMP_TO_EDGE,
                     addressV = ADDRESS_CLAMP_TO_EDGE,
                     fixCubemapSeams = Some True,
                     mipmaps = False\<rparr>],
                calls := calls s @
                   [\<lparr>call_source = Some source, call_target = length (textures s),
                     call_options =
                       \<lparr>numSamples = 1024, distribution = None, specularPower = None,
                        rect = None, seamPixels = None\<rparr>\<rparr>]\<rparr>)"
  using assms
  by (simp add: generateSkyboxCubemap_def deref_def Let_def createCubemap_def new_Texture_def
      pushGpuMarker_def popGpuMarker_def reprojectTexture_def fixCubemapSeams_const_def)

lemma generateLightingSource_run:
  assumes "source < length (textures s)"
  shows "generateLightingSource source s =
         Inr (Suc (length (textures s)),
              s\<lparr>textures := textures s @
                   [lighting_cube (device (textures s ! source)),
                    (lighting_cube (device (textures s ! source)))
                      \<lparr>name := Some (Plus (Some (Lighting 128)) ''-mipmaps''),
                       mipmaps := True\<rparr>],
                destroyed := insert (length (textures s)) (destroyed s),
                calls := calls s @
                   [\<lparr>call_source = Some source, call_target = length (textures s),
                     call_options =
                       \<lparr>numSamples = (if mipmaps (textures s ! source) then 1 else 1024),
                        distribution = None, specularPower = None,
                        rect = None, seamPixels = None\<rparr>\<rparr>,
                    \<lparr>call_source = Some (length (textures s)),
                     call_target = Suc (length (textures s)),
                     call_options =
                       \<lparr>numSamples = 1, distribution = None, specularPower = None,
                        rect = None, seamPixels = None\<rparr>\<rparr>]\<rparr>)"
  using assms
  by (simp add: generateLightingSource_def deref_def Let_def createCubemap_def new_Texture_def
      pushGpuMarker_def popGpuMarker_def reprojectTexture_def fixCubemapSeams_const_def
      generateMipmaps_run lighting_cube_def nth_append)

lemma length_six: "length xs = 6 \<Longrightarrow> \<exists>a b c d e f. xs = [a, b, c, d, e, f]"
  by (auto simp: numeral_eq_Suc length_Suc_conv)

lemma generatePrefilteredAtlas_loop_step:
  "i < length sources \<Longrightarrow>
   generatePrefilteredAtlas_loop sources result i (Vec4 x y z w) s =
   generatePrefilteredAtlas_loop sources result (i + 1)
     (Vec4 x (y + w) (max 1 (of_int \<lfloor>z * 0.5\<rfloor>)) (max 1 (of_int \<lfloor>w * 0.5\<rfloor>)))
     (s\<lparr>calls := calls s @ [copy_call (Some (sources ! i)) result (Vec4 x y z w)]\<rparr>)"
  by (subst generatePrefilteredAtlas_loop.simps)
     (simp add: Let_def reprojectTexture_def copy_call_def index_def)

lemma generatePrefilteredAtlas_loop_exit:
  "\<not> i < length sources \<Longrightarrow>
   generatePrefilteredAtlas_loop sources result i (Vec4 x y z w) s = (Vec4 x y z w, s)"
  by (subst generatePrefilteredAtlas_loop.simps) simp

lemma generatePrefilteredAtlas_loop_run:
  "generatePrefilteredAtlas_loop [a, b, c, d, e, f] result 0 (Vec4 0 0 512 256) s =
   (Vec4 0 504 8 4,
    s\<lparr>calls := calls s @
       [copy_call (Some a) result (Vec4 0 0 512 256),
        copy_call (Some b) result (Vec4 0 256 256 128),
        copy_call (Some c) result (Vec4 0 384 128 64),
        copy_call (Some d) result (Vec4 0 448 64 32),
        copy_call (Some e) result (Vec4 0 480 32 16),
        copy_call (Some f) result (Vec4 0 496 16 8)]\<rparr>)"
  by (simp add: generatePrefilteredAtlas_loop_step generatePrefilteredAtlas_loop_exit)

lemma generatePrefilteredAtlas_issued:
  assumes "a < length (textures s)"
  shows "\<exists>result. issued s (generatePrefilteredAtlas [a, b, c, d, e, f] options s) =
           Some [copy_call (Some a) result (Vec4 0 0 512 256),
                 copy_call (Some b) result (Vec4 0 256 256 128),
                 copy_call (Some c) result (Vec4 0 384 128 64),
                 copy_call (Some d) result (Vec4 0 448 64 32),
                 copy_call (Some e) result (Vec4 0 480 32 16),
                 copy_call (Some f) result (Vec4 0 496 16 8),
                 prefiltered_ambient_call (Some a) (Some f) result options]"
proof (cases "chain opt_target options")
  case None
  with assms show ?thesis
    by (auto simp: generatePrefilteredAtlas_def index_def deref_def Let_def new_Texture_def
        generatePrefilteredAtlas_loop_run pushGpuMarker_def popGpuMarker_def
        reprojectTexture_def prefiltered_ambient_call_def copy_call_def issued_def)
next
  case (Some t)
  with assms show ?thesis
    by (auto simp: generatePrefilteredAtlas_def index_def deref_def Let_def
        generatePrefilteredAtlas_loop_run pushGpuMarker_def popGpuMarker_def
        reprojectTexture_def prefiltered_ambient_call_def copy_call_def issued_def)
qed

subsection \<open>The atlas layout\<close>

text \<open>
  C1. Whatever the options, \<^verbatim>\<open>generateAtlas\<close> on a source texture calls the convolution
  primitive eight times, with the rectangles (0,0,512,256), (0,256,256,128),
  (0,384,128,64), (0,448,64,32), (0,480,32,16), (0,496,16,8), (0,504,8,4) for the
  reflections, in this order, and then (256,256,64,32) for the ambient pass. The seven
  reflection rectangles are the base rectangle and its successors under the rule
  \<open>y_new = y_prev + h_prev\<close>, \<open>w_new = max(1, floor(w_prev * 0.5))\<close>,
  \<open>h_new = max(1, floor(h_prev * 0.5))\<close>, with \<open>x = 0\<close> throughout.
\<close>

theorem generateAtlas_rectangles:
  assumes "source < length (textures s)"
  shows "map_option (map (\<lambda>c. rect (call_options c)))
           (issued s (generateAtlas source options s)) =
         Some [Some (Vec4 0 0 512 256), Some (Vec4 0 256 256 128), Some (Vec4 0 384 128 64),
               Some (Vec4 0 448 64 32), Some (Vec4 0 480 32 16), Some (Vec4 0 496 16 8),
               Some (Vec4 0 504 8 4), Some (Vec4 256 256 64 32)]
       \<and> take 7 (regions s (generateAtlas source options s)) =
           spec_levels 7 (Vec4 0 0 512 256)"
proof -
  obtain result where
    "issued s (generateAtlas source options s) = Some (atlas_calls source result options)"
    using generateAtlas_issued [OF assms] by blast
  then show ?thesis
    by (simp add: atlas_calls_rects generateAtlas_regions [OF assms] spec_levels_default)
qed

theorem generateAtlas_rectangles_witness:
  "0 < length (textures ex_gpu)
   \<and> map_option (map (\<lambda>c. rect (call_options c)))
       (issued ex_gpu (generateAtlas 0 (Some ex_options) ex_gpu)) =
     Some [Some (Vec4 0 0 512 256), Some (Vec4 0 256 256 128), Some (Vec4 0 384 128 64),
           Some (Vec4 0 448 64 32), Some (Vec4 0 480 32 16), Some (Vec4 0 496 16 8),
           Some (Vec4 0 504 8 4), Some (Vec4 256 256 64 32)]"
proof -
  have h: "0 < length (textures ex_gpu)" by (simp add: ex_gpu_def)
  show ?thesis using h generateAtlas_rectangles [OF h, of "Some ex_options"] by simp
qed

text \<open>
  C2. For \<open>i = 1, ..., 6\<close> the specular power of the \<open>i\<close>-th blurred reflection call of
  \<^verbatim>\<open>generateAtlas\<close> is \<open>max(1, 2048 >> (i * 2))\<close>, which is 512, 128, 32, 8, 2, 1.
\<close>

theorem generateAtlas_specularPower:
  assumes "source < length (textures s)"
  shows "map_option (\<lambda>cs. map (\<lambda>i. specularPower (call_options (cs ! i))) [1, 2, 3, 4, 5, 6])
           (issued s (generateAtlas source options s)) =
         Some (map (\<lambda>i. Some (max 1 (shift_right_2048 (i * 2)))) [1, 2, 3, 4, 5, 6])
       \<and> map (\<lambda>i. max 1 (shift_right_2048 (i * 2))) [1, 2, 3, 4, 5, 6] =
           [512, 128, 32, 8, 2, 1]"
proof -
  obtain result where
    "issued s (generateAtlas source options s) = Some (atlas_calls source result options)"
    using generateAtlas_issued [OF assms] by blast
  then show ?thesis
    by (simp add: atlas_calls_def reflection_call_def shift_right_2048_values)
qed

theorem generateAtlas_specularPower_witness:
  "0 < length (textures ex_gpu)
   \<and> map_option (\<lambda>cs. map (\<lambda>i. specularPower (call_options (cs ! i))) [1, 2, 3, 4, 5, 6])
       (issued ex_gpu (generateAtlas 0 None ex_gpu)) =
     Some [Some 512, Some 128, Some 32, Some 8, Some 2, Some 1]"
proof -
  have h: "0 < length (textures ex_gpu)" by (simp add: ex_gpu_def)
  show ?thesis
    using h generateAtlas_specularPower [OF h, of None]
    by (simp add: shift_right_2048_values)
qed

subsection \<open>Format selection\<close>

text \<open>
  C3. The format of the intermediate lighting source is the 16-bit float format when
  half-float textures are supported and renderable, otherwise the 32-bit float format
  when full-float textures are supported and renderable, otherwise the 8-bit-per-channel
  format; the format of the runtime atlas is the 8-bit-per-channel format on every device.
\<close>

theorem format_selection:
  "(extTextureHalfFloat d \<and> textureHalfFloatRenderable d \<longrightarrow>
      lightingSourcePixelFormat d = PIXELFORMAT_RGBA16F)
   \<and> (\<not> (extTextureHalfFloat d \<and> textureHalfFloatRenderable d)
        \<and> extTextureFloat d \<and> textureFloatRenderable d \<longrightarrow>
      lightingSourcePixelFormat d = PIXELFORMAT_RGBA32F)
   \<and> (\<not> (extTextureHalfFloat d \<and> textureHalfFloatRenderable d)
        \<and> \<not> (extTextureFloat d \<and> textureFloatRenderable d) \<longrightarrow>
      lightingSourcePixelFormat d = PIXELFORMAT_R8_G8_B8_A8)
   \<and> lightingPixelFormat d = PIXELFORMAT_R8_G8_B8_A8"
  by (simp add: lightingSourcePixelFormat_def lightingPixelFormat_def supportsFloat16_def
      supportsFloat32_def)

theorem format_selection_witness:
  "lightingSourcePixelFormat
     \<lparr>extTextureHalfFloat = True, textureHalfFloatRenderable = True,
      extTextureFloat = True, textureFloatRenderable = True\<rparr> = PIXELFORMAT_RGBA16F
   \<and> \<not> (extTextureHalfFloat ex_device \<and> textureHalfFloatRenderable ex_device)
   \<and> extTextureFloat ex_device \<and> textureFloatRenderable ex_device
   \<and> lightingSourcePixelFormat ex_device = PIXELFORMAT_RGBA32F
   \<and> lightingSourcePixelFormat
     \<lparr>extTextureHalfFloat = True, textureHalfFloatRenderable = False,
      extTextureFloat = False, textureFloatRenderable = True\<rparr> = PIXELFORMAT_R8_G8_B8_A8
   \<and> lightingPixelFormat ex_device = PIXELFORMAT_R8_G8_B8_A8"
  using format_selection [of ex_device]
    format_selection [of "\<lparr>extTextureHalfFloat = True, textureHalfFloatRenderable = True,
      extTextureFloat = True, textureFloatRenderable = True\<rparr>"]
    format_selection [of "\<lparr>extTextureHalfFloat = True, textureHalfFloatRenderable = False,
      extTextureFloat = False, textureFloatRenderable = True\<rparr>"]
  by (simp add: ex_device_def)

subsection \<open>Regions of one atlas build\<close>

text \<open>
  C4. The eight rectangles of one run of \<^verbatim>\<open>generateAtlas\<close> (seven reflections and the
  ambient one) are pairwise disjoint as sets of pixels, and each lies within
  \<open>[0,512) x [0,512)\<close>.
\<close>

theorem generateAtlas_regions_disjoint:
  assumes "source < length (textures s)" and "i < 8" and "j < 8" and "i \<noteq> j"
  shows "length (regions s (generateAtlas source options s)) = 8
       \<and> pixels (regions s (generateAtlas source options s) ! i)
           \<inter> pixels (regions s (generateAtlas source options s) ! j) = {}
       \<and> pixels (regions s (generateAtlas source options s) ! i)
           \<subseteq> {0..<512} \<times> {0..<512}"
proof -
  let ?rs = "regions s (generateAtlas source options s)"
  have rs: "?rs =
     [Vec4 0 0 512 256, Vec4 0 256 256 128, Vec4 0 384 128 64, Vec4 0 448 64 32,
      Vec4 0 480 32 16, Vec4 0 496 16 8, Vec4 0 504 8 4, Vec4 256 256 64 32]"
    by (rule generateAtlas_regions [OF assms(1)])
  have len: "length ?rs = 8" by (simp add: rs)
  have "sorted_wrt (\<lambda>a b. \<not> overlap a b) ?rs" by (simp add: rs)
  then have lt: "\<not> overlap (?rs ! a) (?rs ! b)" if "a < b" "b < 8" for a b
    using that len by (simp add: sorted_wrt_iff_nth_less)
  have disj: "pixels (?rs ! i) \<inter> pixels (?rs ! j) = {}"
  proof (cases "i < j")
    case True
    then show ?thesis using lt [of i j] assms(3) by (simp add: no_overlap_disjoint)
  next
    case False
    with assms(4) have "j < i" by simp
    then have "pixels (?rs ! j) \<inter> pixels (?rs ! i) = {}"
      using lt [of j i] assms(2) by (simp add: no_overlap_disjoint)
    then show ?thesis by (simp add: Int_commute)
  qed
  have "\<forall>r \<in> set ?rs. inside_atlas r" by (simp add: rs)
  moreover have "?rs ! i \<in> set ?rs" using assms(2) len by simp
  ultimately have "inside_atlas (?rs ! i)" by blast
  then have "pixels (?rs ! i) \<subseteq> {0..<512} \<times> {0..<512}" by (rule inside_atlas_pixels)
  with len disj show ?thesis by simp
qed

theorem generateAtlas_regions_disjoint_witness:
  "0 < length (textures ex_gpu) \<and> (1::nat) < 8 \<and> (7::nat) < 8 \<and> (1::nat) \<noteq> 7
   \<and> length (regions ex_gpu (generateAtlas 0 None ex_gpu)) = 8
   \<and> pixels (regions ex_gpu (generateAtlas 0 None ex_gpu) ! 1)
       \<inter> pixels (regions ex_gpu (generateAtlas 0 None ex_gpu) ! 7) = {}
   \<and> pixels (regions ex_gpu (generateAtlas 0 None ex_gpu) ! 1) \<subseteq> {0..<512} \<times> {0..<512}"
proof -
  have h: "0 < length (textures ex_gpu)" by (simp add: ex_gpu_def)
  show ?thesis
    using h generateAtlas_regions_disjoint [OF h, of 1 7 None] by simp
qed

subsection \<open>The texture that generateAtlas returns\<close>

text \<open>
  C5 does not hold as the specification states it: with a 256x256 texture handed in as
  \<^verbatim>\<open>options.target\<close>, \<^verbatim>\<open>generateAtlas\<close> returns that texture, which is 256 wide and
  256 high.
\<close>

theorem generateAtlas_target_size_counterexample:
  "result_size (generateAtlas 0 (Some ex_options) ex_gpu) = Some (256, 256)"
proof -
  have "0 < length (textures ex_gpu)" by (simp add: ex_gpu_def)
  moreover have "chain opt_target (Some ex_options) = Some 1"
    by (simp add: chain_def ex_options_def)
  ultimately have "generateAtlas 0 (Some ex_options) ex_gpu =
      Inr (1, ex_gpu\<lparr>calls := calls ex_gpu @ atlas_calls 0 1 (Some ex_options)\<rparr>)"
    by (rule generateAtlas_target)
  then show ?thesis
    by (simp add: result_size_def result_texture_def index_def ex_gpu_def ex_small_def)
qed

text \<open>
  C5, amended. When the options give no target, \<^verbatim>\<open>generateAtlas\<close> returns a newly
  created texture of width 512 and height 512; when the options give a target, it
  returns that very texture, and no texture is created or changed.
\<close>

theorem generateAtlas_result:
  assumes "source < length (textures s)"
  shows "(chain opt_target options = None \<longrightarrow>
            result_handle (generateAtlas source options s) = Some (length (textures s))
          \<and> result_size (generateAtlas source options s) = Some (512, 512))
       \<and> (chain opt_target options = Some t \<longrightarrow>
            result_handle (generateAtlas source options s) = Some t
          \<and> map_option textures (result_state (generateAtlas source options s)) =
              Some (textures s))"
proof (cases "chain opt_target options")
  case None
  with assms show ?thesis
    by (simp add: generateAtlas_fresh result_handle_def result_size_def result_texture_def
        index_def atlas_texture_def)
next
  case (Some u)
  with assms show ?thesis
    by (simp add: generateAtlas_target result_handle_def result_state_def)
qed

theorem generateAtlas_result_witness:
  "0 < length (textures ex_gpu)
   \<and> chain opt_target (None :: options option) = None
   \<and> result_handle (generateAtlas 0 None ex_gpu) = Some 8
   \<and> result_size (generateAtlas 0 None ex_gpu) = Some (512, 512)
   \<and> chain opt_target (Some ex_options) = Some 1
   \<and> result_handle (generateAtlas 0 (Some ex_options) ex_gpu) = Some 1
   \<and> map_option textures (result_state (generateAtlas 0 (Some ex_options) ex_gpu)) =
       Some (textures ex_gpu)"
proof -
  have h: "0 < length (textures ex_gpu)" by (simp add: ex_gpu_def)
  have n: "chain opt_target (None :: options option) = None" by (simp add: chain_def)
  have t: "chain opt_target (Some ex_options) = Some 1"
    by (simp add: chain_def ex_options_def)
  have l: "length (textures ex_gpu) = 8" by (simp add: ex_gpu_def)
  show ?thesis
    using h n t l generateAtlas_result [OF h, of None 0]
      generateAtlas_result [OF h, of "Some ex_options" 1]
    by simp
qed

subsection \<open>The ambient pass\<close>

text \<open>
  C9 does not hold as the specification states it: with \<^verbatim>\<open>legacyAmbient\<close> set and the
  caller's \<^verbatim>\<open>numSamples\<close> given as 0, the ambient call of \<^verbatim>\<open>generateAtlas\<close> has
  \<^verbatim>\<open>numSamples = 4096\<close>, not the caller's 0.
\<close>

theorem generateAtlas_ambient_zero_counterexample:
  "opt_legacyAmbient ex_zero_options
   \<and> opt_numSamples ex_zero_options = Some 0
   \<and> map_option numSamples
       (issued_options 7 ex_gpu (generateAtlas 0 (Some ex_zero_options) ex_gpu)) = Some 4096"
proof -
  have "0 < length (textures ex_gpu)" by (simp add: ex_gpu_def)
  moreover have "chain opt_target (Some ex_zero_options) = None"
    by (simp add: chain_def ex_zero_options_def)
  ultimately have "generateAtlas 0 (Some ex_zero_options) ex_gpu =
      Inr (length (textures ex_gpu),
           ex_gpu\<lparr>textures := textures ex_gpu @
                     [atlas_texture (device (textures ex_gpu ! 0)) PIXELFORMAT_R8_G8_B8_A8],
                   calls := calls ex_gpu @
                     atlas_calls 0 (length (textures ex_gpu)) (Some ex_zero_options)\<rparr>)"
    by (rule generateAtlas_fresh)
  then show ?thesis
    by (simp add: issued_options_def issued_def index_def atlas_calls_def ambient_options_def
        chain_def chain_flag_def or_number_def ex_zero_options_def)
qed

text \<open>
  C9, amended. The eighth and last call of \<^verbatim>\<open>generateAtlas\<close> writes the ambient region
  (256,256,64,32) from the source, with \<^verbatim>\<open>seamPixels = 1\<close>. When \<^verbatim>\<open>options.legacyAmbient\<close>
  is set, it has distribution phong, specular power 2 and as sample count the caller's
  \<^verbatim>\<open>numSamples\<close> if that is given and is not 0, and 4096 otherwise; when it is not set
  (or no options are given), it has distribution lambert, no specular power and as
  sample count the caller's \<^verbatim>\<open>numSamples\<close> if that is given and is not 0, and 2048
  otherwise.
\<close>

theorem generateAtlas_ambient:
  assumes "source < length (textures s)"
  shows "map_option length (issued s (generateAtlas source options s)) = Some 8
       \<and> issued_options 7 s (generateAtlas source options s) =
           Some (let legacy = (case options of None \<Rightarrow> False
                               | Some opts \<Rightarrow> opt_legacyAmbient opts);
                     override = (case options of None \<Rightarrow> None
                                 | Some opts \<Rightarrow> opt_numSamples opts);
                     dflt = (if legacy then 4096 else 2048)
                 in \<lparr>numSamples =
                        (case override of
                           None \<Rightarrow> dflt
                         | Some n \<Rightarrow> if n = 0 then dflt else n),
                      distribution = Some (if legacy then ''phong'' else ''lambert''),
                      specularPower = (if legacy then Some 2 else None),
                      rect = Some (Vec4 256 256 64 32),
                      seamPixels = Some 1\<rparr>)
       \<and> map_option (\<lambda>cs. call_source (cs ! 7)) (issued s (generateAtlas source options s)) =
           Some (Some source)"
proof -
  obtain result where
    "issued s (generateAtlas source options s) = Some (atlas_calls source result options)"
    using generateAtlas_issued [OF assms] by blast
  then show ?thesis
    by (simp add: issued_options_def index_def atlas_calls_def ambient_options_def
        chain_def chain_flag_def or_number_def Let_def split: option.splits)
qed

theorem generateAtlas_ambient_witness:
  "0 < length (textures ex_gpu)
   \<and> issued_options 7 ex_gpu (generateAtlas 0 (Some ex_override_options) ex_gpu) =
       Some \<lparr>numSamples = 64, distribution = Some ''phong'', specularPower = Some 2,
             rect = Some (Vec4 256 256 64 32), seamPixels = Some 1\<rparr>
   \<and> issued_options 7 ex_gpu (generateAtlas 0 (Some ex_options) ex_gpu) =
       Some \<lparr>numSamples = 4096, distribution = Some ''phong'', specularPower = Some 2,
             rect = Some (Vec4 256 256 64 32), seamPixels = Some 1\<rparr>
   \<and> issued_options 7 ex_gpu (generateAtlas 0 (Some ex_lambert_options) ex_gpu) =
       Some \<lparr>numSamples = 16, distribution = Some ''lambert'', specularPower = None,
             rect = Some (Vec4 256 256 64 32), seamPixels = Some 1\<rparr>
   \<and> issued_options 7 ex_gpu (generateAtlas 0 None ex_gpu) =
       Some \<lparr>numSamples = 2048, distribution = Some ''lambert'', specularPower = None,
             rect = Some (Vec4 256 256 64 32), seamPixels = Some 1\<rparr>"
proof -
  have h: "0 < length (textures ex_gpu)" by (simp add: ex_gpu_def)
  show ?thesis
    using h generateAtlas_ambient [OF h, of "Some ex_override_options"]
      generateAtlas_ambient [OF h, of "Some ex_options"]
      generateAtlas_ambient [OF h, of "Some ex_lambert_options"]
      generateAtlas_ambient [OF h, of None]
    by (simp add: ex_override_options_def ex_options_def ex_lambert_options_def)
qed

subsection \<open>generateMipmaps\<close>

text \<open>
  C6 does not hold as the specification states it: the texture that \<^verbatim>\<open>generateMipmaps\<close> returns does
  not differ from its argument in \<^verbatim>\<open>mipmaps\<close> only. For the cubemap named \<open>cube\<close> the
  result is named \<open>cube-mipmaps\<close>.
\<close>

theorem generateMipmaps_name_counterexample:
  "result_texture (generateMipmaps 2 ex_gpu) \<noteq> Some ((textures ex_gpu ! 2)\<lparr>mipmaps := True\<rparr>)
   \<and> map_option name (result_texture (generateMipmaps 2 ex_gpu)) =
       Some (Some (Plus (Some (Literal ''cube'')) ''-mipmaps''))
   \<and> name (textures ex_gpu ! 2) = Some (Literal ''cube'')"
proof -
  have "2 < length (textures ex_gpu)" by (simp add: ex_gpu_def)
  then show ?thesis
    by (simp add: generateMipmaps_run result_texture_def index_def)
       (simp add: ex_gpu_def ex_cube_def)
qed

text \<open>
  C6, amended. For every texture \<open>t\<close>, \<^verbatim>\<open>generateMipmaps\<close> returns a newly created
  texture whose device, cubemap flag, width, height, format, encoding type, address
  modes and seam-fixing flag are those of \<open>t\<close>, whose \<^verbatim>\<open>mipmaps\<close> is true, whose name
  is the name of \<open>t\<close> followed by \<open>-mipmaps\<close>, and which is given no projection. It
  makes one call to the convolution primitive, from \<open>t\<close> into the new texture with
  \<^verbatim>\<open>numSamples = 1\<close> and nothing else set, and it destroys \<open>t\<close>. The textures that
  existed before are left as they were.
\<close>

theorem generateMipmaps_promotes:
  assumes "target < length (textures s)"
  shows "result_handle (generateMipmaps target s) = Some (length (textures s))
       \<and> result_texture (generateMipmaps target s) =
           Some ((textures s ! target)
                   \<lparr>name := Some (Plus (name (textures s ! target)) ''-mipmaps''),
                    projection := None, mipmaps := True\<rparr>)
       \<and> issued s (generateMipmaps target s) =
           Some [\<lparr>call_source = Some target, call_target = length (textures s),
                  call_options =
                    \<lparr>numSamples = 1, distribution = None, specularPower = None,
                     rect = None, seamPixels = None\<rparr>\<rparr>]
       \<and> map_option destroyed (result_state (generateMipmaps target s)) =
           Some (insert target (destroyed s))
       \<and> map_option (\<lambda>s'. take (length (textures s)) (textures s'))
           (result_state (generateMipmaps target s)) = Some (textures s)"
  using assms
  by (simp add: generateMipmaps_run result_handle_def result_texture_def result_state_def
      issued_def index_def)

theorem generateMipmaps_promotes_witness:
  "2 < length (textures ex_gpu)
   \<and> result_handle (generateMipmaps 2 ex_gpu) = Some 8
   \<and> result_texture (generateMipmaps 2 ex_gpu) =
       Some (ex_cube\<lparr>name := Some (Plus (Some (Literal ''cube'')) ''-mipmaps''),
                     mipmaps := True\<rparr>)
   \<and> map_option destroyed (result_state (generateMipmaps 2 ex_gpu)) = Some {2}"
proof -
  have h: "2 < length (textures ex_gpu)" by (simp add: ex_gpu_def)
  show ?thesis
    using h generateMipmaps_promotes [OF h]
    by (simp add: ex_gpu_def ex_cube_def)
qed

subsection \<open>generateSkyboxCubemap\<close>

text \<open>
  C7 does not hold as the specification states it: called on the 1024-wide capture with the explicit
  size 0, \<^verbatim>\<open>generateSkyboxCubemap\<close> returns a cubemap of face size 256, not 0.
\<close>

theorem generateSkyboxCubemap_size_counterexample:
  "result_size (generateSkyboxCubemap 0 (Some 0) ex_gpu) = Some (256, 256)"
proof -
  have "0 < length (textures ex_gpu)" by (simp add: ex_gpu_def)
  then show ?thesis
    by (simp add: generateSkyboxCubemap_run result_size_def result_texture_def index_def
        or_size_def)
       (simp add: ex_gpu_def ex_equirect_def)
qed

text \<open>
  C7, amended. Called without a size, or with the size 0, \<^verbatim>\<open>generateSkyboxCubemap\<close>
  returns a cubemap whose face size is \<^verbatim>\<open>source.width\<close> if the source is a cubemap and
  \<^verbatim>\<open>source.width / 4\<close> otherwise; called with a size other than 0, it returns a cubemap
  of that face size.
\<close>

theorem generateSkyboxCubemap_size:
  assumes "source < length (textures s)"
  shows "(sz = None \<or> sz = Some 0 \<longrightarrow>
            result_size (generateSkyboxCubemap source sz s) =
              (if cubemap (textures s ! source) = Some True
               then Some (width (textures s ! source), width (textures s ! source))
               else Some (width (textures s ! source) / 4, width (textures s ! source) / 4)))
       \<and> (sz = Some n \<and> n \<noteq> 0 \<longrightarrow>
            result_size (generateSkyboxCubemap source sz s) = Some (n, n))
       \<and> map_option cubemap (result_texture (generateSkyboxCubemap source sz s)) =
           Some (Some True)"
  using assms
  by (auto simp: generateSkyboxCubemap_run result_size_def result_texture_def index_def
      or_size_def)

theorem generateSkyboxCubemap_size_witness:
  "0 < length (textures ex_gpu) \<and> 2 < length (textures ex_gpu)
   \<and> cubemap (textures ex_gpu ! 0) \<noteq> Some True
   \<and> result_size (generateSkyboxCubemap 0 None ex_gpu) = Some (256, 256)
   \<and> cubemap (textures ex_gpu ! 2) = Some True
   \<and> result_size (generateSkyboxCubemap 2 None ex_gpu) = Some (128, 128)
   \<and> (64::rat) \<noteq> 0
   \<and> result_size (generateSkyboxCubemap 0 (Some 64) ex_gpu) = Some (64, 64)
   \<and> result_size (generateSkyboxCubemap 2 (Some 0) ex_gpu) = Some (128, 128)"
proof -
  have h0: "0 < length (textures ex_gpu)" and h2: "2 < length (textures ex_gpu)"
    by (simp_all add: ex_gpu_def)
  have t0: "textures ex_gpu ! 0 = ex_equirect" and t2: "textures ex_gpu ! 2 = ex_cube"
    by (simp_all add: ex_gpu_def)
  show ?thesis
    using h0 h2 generateSkyboxCubemap_size [OF h0, of None 0]
      generateSkyboxCubemap_size [OF h2, of None 0]
      generateSkyboxCubemap_size [OF h0, of "Some 64" 64]
      generateSkyboxCubemap_size [OF h2, of "Some 0" 0]
    by (simp add: t0 t2 ex_equirect_def ex_cube_def)
qed

subsection \<open>generateLightingSource\<close>

text \<open>
  C8 does not hold as the specification states it: on a device where both half-float
  and full-float textures are supported and renderable, \<^verbatim>\<open>generateLightingSource\<close>
  returns a cubemap in the 16-bit float format, not in the 32-bit float format, which
  is the format of highest precision that the device has.
\<close>

theorem generateLightingSource_format_counterexample:
  "extTextureFloat (device (textures ex_gpu_both ! 0))
   \<and> textureFloatRenderable (device (textures ex_gpu_both ! 0))
   \<and> map_option format (result_texture (generateLightingSource 0 ex_gpu_both)) =
       Some PIXELFORMAT_RGBA16F
   \<and> map_option format (result_texture (generateLightingSource 0 ex_gpu_both)) \<noteq>
       Some PIXELFORMAT_RGBA32F"
proof -
  have "0 < length (textures ex_gpu_both)" by (simp add: ex_gpu_both_def)
  then show ?thesis
    by (simp add: generateLightingSource_run result_texture_def index_def nth_append
        lighting_cube_def lightingSourcePixelFormat_def supportsFloat16_def)
       (simp add: ex_gpu_both_def ex_mipmapped_def ex_device_both_def)
qed

text \<open>
  C8, amended. On every source texture, \<^verbatim>\<open>generateLightingSource\<close> creates a cubemap
  with faces of 128 by 128, without mipmaps, in the 16-bit float format if the
  source's device has half-float textures supported and renderable, otherwise in the
  32-bit float format if it has full-float textures supported and renderable, otherwise
  in the 8-bit-per-channel format (so that the 16-bit format is taken also where the
  32-bit one is available). It convolves the source into it with \<^verbatim>\<open>numSamples = 1\<close> if
  the source has mipmaps and \<^verbatim>\<open>numSamples = 1024\<close> otherwise; it then runs
  \<^verbatim>\<open>generateMipmaps\<close> on that cubemap (one more call with \<^verbatim>\<open>numSamples = 1\<close>, the
  intermediate cubemap destroyed) and returns the cubemap so made, of the same size
  and format, with \<^verbatim>\<open>mipmaps = true\<close>.
\<close>

theorem generateLightingSource_result:
  assumes "source < length (textures s)"
  shows "let d = device (textures s ! source);
             n = length (textures s);
             fmt = (if extTextureHalfFloat d \<and> textureHalfFloatRenderable d
                    then PIXELFORMAT_RGBA16F
                    else if extTextureFloat d \<and> textureFloatRenderable d
                    then PIXELFORMAT_RGBA32F
                    else PIXELFORMAT_R8_G8_B8_A8);
             cube = \<lparr>device = d, name = Some (Lighting 128), cubemap = Some True,
                     width = 128, height = 128, format = fmt,
                     type = (if fmt = PIXELFORMAT_R8_G8_B8_A8
                             then TEXTURETYPE_RGBM else TEXTURETYPE_DEFAULT),
                     projection = None,
                     addressU = ADDRESS_CLAMP_TO_EDGE, addressV = ADDRESS_CLAMP_TO_EDGE,
                     fixCubemapSeams = Some True, mipmaps = False\<rparr>;
             r = generateLightingSource source s
         in result_handle r = Some (Suc n)
          \<and> map_option textures (result_state r) =
              Some (textures s @
                    [cube,
                     cube\<lparr>name := Some (Plus (Some (Lighting 128)) ''-mipmaps''),
                          mipmaps := True\<rparr>])
          \<and> issued s r =
              Some [\<lparr>call_source = Some source, call_target = n,
                     call_options =
                       \<lparr>numSamples = (if mipmaps (textures s ! source) then 1 else 1024),
                        distribution = None, specularPower = None,
                        rect = None, seamPixels = None\<rparr>\<rparr>,
                    \<lparr>call_source = Some n, call_target = Suc n,
                     call_options =
                       \<lparr>numSamples = 1, distribution = None, specularPower = None,
                        rect = None, seamPixels = None\<rparr>\<rparr>]
          \<and> map_option destroyed (result_state r) = Some (insert n (destroyed s))
          \<and> map_option cubemap (result_texture r) = Some (Some True)
          \<and> result_size r = Some (128, 128)
          \<and> map_option format (result_texture r) = Some fmt
          \<and> map_option mipmaps (result_texture r) = Some True"
  using assms
  by (simp add: generateLightingSource_run result_handle_def result_texture_def
      result_state_def result_size_def issued_def index_def nth_append lighting_cube_def
      lightingSourcePixelFormat_def supportsFloat16_def supportsFloat32_def Let_def)

theorem generateLightingSource_result_witness:
  "0 < length (textures ex_gpu) \<and> 0 < length (textures ex_gpu_both)
   \<and> result_handle (generateLightingSource 0 ex_gpu) = Some 9
   \<and> issued ex_gpu (generateLightingSource 0 ex_gpu) =
       Some [\<lparr>call_source = Some 0, call_target = 8,
              call_options =
                \<lparr>numSamples = 1024, distribution = None, specularPower = None,
                 rect = None, seamPixels = None\<rparr>\<rparr>,
             \<lparr>call_source = Some 8, call_target = 9,
              call_options =
                \<lparr>numSamples = 1, distribution = None, specularPower = None,
                 rect = None, seamPixels = None\<rparr>\<rparr>]
   \<and> result_size (generateLightingSource 0 ex_gpu) = Some (128, 128)
   \<and> map_option format (result_texture (generateLightingSource 0 ex_gpu)) =
       Some PIXELFORMAT_RGBA32F
   \<and> map_option mipmaps (result_texture (generateLightingSource 0 ex_gpu)) = Some True
   \<and> issued ex_gpu_both (generateLightingSource 0 ex_gpu_both) =
       Some [\<lparr>call_source = Some 0, call_target = 1,
              call_options =
                \<lparr>numSamples = 1, distribution = None, specularPower = None,
                 rect = None, seamPixels = None\<rparr>\<rparr>,
             \<lparr>call_source = Some 1, call_target = 2,
              call_options =
                \<lparr>numSamples = 1, distribution = None, specularPower = None,
                 rect = None, seamPixels = None\<rparr>\<rparr>]
   \<and> map_option format (result_texture (generateLightingSource 0 ex_gpu_both)) =
       Some PIXELFORMAT_RGBA16F
   \<and> map_option destroyed (result_state (generateLightingSource 0 ex_gpu_both)) = Some {1}"
proof -
  have h: "0 < length (textures ex_gpu)" and hb: "0 < length (textures ex_gpu_both)"
    by (simp_all add: ex_gpu_def ex_gpu_both_def)
  have l: "length (textures ex_gpu) = 8" and t: "textures ex_gpu ! 0 = ex_equirect"
    and lb: "length (textures ex_gpu_both) = 1" and tb: "textures ex_gpu_both ! 0 = ex_mipmapped"
    and db: "destroyed ex_gpu_both = {}"
    by (simp_all add: ex_gpu_def ex_gpu_both_def)
  show ?thesis
    using h hb generateLightingSource_result [OF h] generateLightingSource_result [OF hb]
    by (simp add: Let_def l t lb tb db ex_equirect_def ex_mipmapped_def ex_device_def
        ex_device_both_def)
qed

subsection \<open>The reflection loop of generatePrefilteredAtlas\<close>

text \<open>
  C10. Given six sources, \<^verbatim>\<open>generatePrefilteredAtlas\<close> makes seven calls to the
  convolution primitive: six by its reflection loop and then the ambient one. The
  \<open>i\<close>-th call of the loop (\<open>i = 0, ..., 5\<close>) copies \<^verbatim>\<open>sources[i]\<close> with
  \<^verbatim>\<open>numSamples = 1\<close>, no distribution, no specular power and \<^verbatim>\<open>seamPixels = 1\<close> into
  the \<open>i\<close>-th rectangle of the seven-rectangle layout, beginning with \<^verbatim>\<open>sources[0]\<close>
  into (0,0,512,256). No call writes the seventh rectangle (0,504,8,4).
\<close>

theorem generatePrefilteredAtlas_reflections:
  assumes "length sources = 6" and "sources ! 0 < length (textures s)"
  shows "map_option length (issued s (generatePrefilteredAtlas sources options s)) = Some 7
       \<and> map_option (\<lambda>cs. map call_source (take 6 cs))
           (issued s (generatePrefilteredAtlas sources options s)) = Some (map Some sources)
       \<and> map_option (\<lambda>cs. map call_options (take 6 cs))
           (issued s (generatePrefilteredAtlas sources options s)) =
           Some (map (\<lambda>r. \<lparr>numSamples = 1, distribution = None, specularPower = None,
                            rect = Some r, seamPixels = Some 1\<rparr>)
                   [Vec4 0 0 512 256, Vec4 0 256 256 128, Vec4 0 384 128 64,
                    Vec4 0 448 64 32, Vec4 0 480 32 16, Vec4 0 496 16 8])
       \<and> take 6 (regions s (generatePrefilteredAtlas sources options s)) =
           take 6 (spec_levels 7 (Vec4 0 0 512 256))
       \<and> regions s (generatePrefilteredAtlas sources options s) ! 6 = Vec4 256 256 64 32
       \<and> Vec4 0 504 8 4 \<notin> set (regions s (generatePrefilteredAtlas sources options s))"
proof -
  obtain a b c d e f where src: "sources = [a, b, c, d, e, f]"
    using length_six [OF assms(1)] by blast
  with assms(2) have "a < length (textures s)" by simp
  then obtain result where
    "issued s (generatePrefilteredAtlas [a, b, c, d, e, f] options s) =
       Some [copy_call (Some a) result (Vec4 0 0 512 256),
             copy_call (Some b) result (Vec4 0 256 256 128),
             copy_call (Some c) result (Vec4 0 384 128 64),
             copy_call (Some d) result (Vec4 0 448 64 32),
             copy_call (Some e) result (Vec4 0 480 32 16),
             copy_call (Some f) result (Vec4 0 496 16 8),
             prefiltered_ambient_call (Some a) (Some f) result options]"
    using generatePrefilteredAtlas_issued by blast
  then show ?thesis
    by (simp add: src regions_def List.map_filter_def copy_call_def
        prefiltered_ambient_call_def spec_levels_default)
qed

theorem generatePrefilteredAtlas_reflections_witness:
  "length [2, 3, 4, 5, 6, 7 :: nat] = 6 \<and> [2, 3, 4, 5, 6, 7] ! 0 < length (textures ex_gpu)
   \<and> map_option length (issued ex_gpu (generatePrefilteredAtlas [2, 3, 4, 5, 6, 7] None ex_gpu)) =
       Some 7
   \<and> map_option (\<lambda>cs. map call_source (take 6 cs))
       (issued ex_gpu (generatePrefilteredAtlas [2, 3, 4, 5, 6, 7] None ex_gpu)) =
       Some [Some 2, Some 3, Some 4, Some 5, Some 6, Some 7]
   \<and> Vec4 0 504 8 4 \<notin> set (regions ex_gpu (generatePrefilteredAtlas [2, 3, 4, 5, 6, 7] None ex_gpu))"
proof -
  have l: "length [2, 3, 4, 5, 6, 7 :: nat] = 6" by simp
  have h: "[2, 3, 4, 5, 6, 7] ! 0 < length (textures ex_gpu)" by (simp add: ex_gpu_def)
  show ?thesis
    using l h generatePrefilteredAtlas_reflections [OF l h, of None]
    by simp
qed

end
